theory Spec2Isabelle
  imports Main "HOL-Library.Word"
begin

section \<open>CDllHelper: loading a shared library and binding its symbols\<close>

text \<open>
  A shallow embedding of \<^verbatim>\<open>src/lib/kodi/tools/DllHelper.h\<close>. The class owns one
  native handle \<^verbatim>\<open>m_dll\<close>. Everything else it touches lives outside the file: the
  Kodi virtual filesystem, the Kodi log, the native loader of \<^verbatim>\<open>dlfcn.h\<close> and the
  realtime clock. Those collaborators are parameters of the model (the record
  \<open>sys\<close>), and every call of the class that has an effect on them is written to a
  list of calls that each operation returns.
\<close>

subsection \<open>Data\<close>

text \<open>A \<^verbatim>\<open>void*\<close> is an address; address 0 is \<^verbatim>\<open>nullptr\<close>.\<close>

type_synonym ptr = nat

abbreviation nullptr :: ptr where
  "nullptr \<equiv> 0"

record timespec =
  tv_sec :: int
  tv_nsec :: int

text \<open>
  The two fields of Kodi's \<^verbatim>\<open>STAT_STRUCTURE\<close> that the class reads. The field
  \<^verbatim>\<open>size\<close> (a \<^verbatim>\<open>uint64_t\<close>) is named \<open>size_st\<close> here, \<open>size\<close> being taken in HOL.
\<close>

record STAT_STRUCTURE =
  size_st :: "64 word"
  modificationTime :: timespec

datatype log_level = ADDON_LOG_DEBUG | ADDON_LOG_ERROR

text \<open>
  The calls with an effect outside the object, in the order the code makes them:
  \<^verbatim>\<open>kodi::Log(level, format, args...)\<close>, \<^verbatim>\<open>kodi::vfs::CopyFile(src, dst)\<close>,
  \<^verbatim>\<open>dlopen(path, RTLD_LAZY)\<close>, \<^verbatim>\<open>dlsym(handle, name)\<close> and \<^verbatim>\<open>dlclose(handle)\<close>.
\<close>

datatype call =
    Log log_level string "string list"
  | Copy string string
  | Open string
  | Resolve ptr string
  | Close ptr

text \<open>
  The collaborators, as they answer during one operation of the class.
  \<^item> \<open>TARGET_ANDROID\<close> is the preprocessor switch, \<open>TIME_UTC\<close> the constant of
    \<^verbatim>\<open>time.h\<close>.
  \<^item> \<open>StatFile p\<close> is \<open>None\<close> where \<^verbatim>\<open>kodi::vfs::StatFile\<close> returns false, and the
    buffer it fills otherwise.
  \<^item> \<open>clock_gettime k\<close> is the outcome of the read of \<^verbatim>\<open>CLOCK_REALTIME\<close> made by
    the \<open>k\<close>-th call of \<^verbatim>\<open>timespec_get\<close> in the program text: \<open>None\<close> for the
    return value \<^verbatim>\<open>-1\<close>, the time stored otherwise. The readings are indexed by the
    call and not by time, since C++ leaves open which operand of a comparison
    is evaluated first.
  \<^item> \<open>dlopen\<close> and \<open>dlsym\<close> return an address, \<open>nullptr\<close> on failure; \<open>dlerror\<close> is
    the loader's last error text.
\<close>

record sys =
  TARGET_ANDROID :: bool
  TIME_UTC :: int
  FileExists :: "string \<Rightarrow> bool"
  TranslateSpecialProtocol :: "string \<Rightarrow> string"
  GetFileName :: "string \<Rightarrow> string"
  StatFile :: "string \<Rightarrow> STAT_STRUCTURE option"
  CopyFile :: "string \<Rightarrow> string \<Rightarrow> bool"
  clock_gettime :: "nat \<Rightarrow> timespec option"
  dlopen :: "string \<Rightarrow> ptr"
  dlsym :: "ptr \<Rightarrow> string \<Rightarrow> ptr"
  dlerror :: string

record CDllHelper =
  m_dll :: ptr

text \<open>The default constructor: \<^verbatim>\<open>void* m_dll = nullptr;\<close>\<close>

definition CDllHelper_new :: CDllHelper where
  "CDllHelper_new = \<lparr>m_dll = nullptr\<rparr>"

subsection \<open>Operations\<close>

text \<open>The format strings of the four log lines.\<close>

definition fmt_caching :: string where
  "fmt_caching = ''Caching '%s' to '%s'' @ [CHR 0x27]"

definition fmt_failed_to_cache :: string where
  "fmt_failed_to_cache = ''Failed to cache '%s' to '%s'' @ [CHR 0x27]"

definition fmt_unable_to_load :: string where
  "fmt_unable_to_load = ''Unable to load %s''"

definition fmt_unable_to_assign :: string where
  "fmt_unable_to_assign = ''Unable to assign function %s''"

text \<open>
  \<^verbatim>\<open>int timespec_get(timespec* ts, int base)\<close> (lines 156-159). The result is the
  returned \<^verbatim>\<open>int\<close> and the contents of \<^verbatim>\<open>*ts\<close> afterwards; \<open>k\<close> says which
  reading of the clock the call gets. The conjunction short-circuits: the clock is
  read only when \<^verbatim>\<open>base == TIME_UTC\<close>.
\<close>

definition timespec_get :: "sys \<Rightarrow> nat \<Rightarrow> timespec \<Rightarrow> int \<Rightarrow> int \<times> timespec" where
  "timespec_get sys k ts base =
     (if base = TIME_UTC sys then
        (case clock_gettime sys k of
           Some now \<Rightarrow> (base, now)
         | None \<Rightarrow> (0, ts))
      else (0, ts))"

text \<open>
  The local \<^verbatim>\<open>doCopy\<close> of \<^verbatim>\<open>LoadDll\<close> (lines 94-106): true at first, cleared
  when both files can be examined, the sizes are equal and the first
  \<^verbatim>\<open>timespec_get\<close> returns more than the second.
\<close>

definition doCopy :: "sys \<Rightarrow> string \<Rightarrow> string \<Rightarrow> bool" where
  "doCopy sys path dstfile =
     (case StatFile sys dstfile of
        None \<Rightarrow> True
      | Some dstFileStat \<Rightarrow>
          (case StatFile sys path of
             None \<Rightarrow> True
           | Some srcFileStat \<Rightarrow>
               (if size_st dstFileStat = size_st srcFileStat \<and>
                   fst (timespec_get sys 0 (modificationTime dstFileStat) (TIME_UTC sys))
                     > fst (timespec_get sys 1 (modificationTime srcFileStat) (TIME_UTC sys))
                then False else True)))"

text \<open>
  The \<^verbatim>\<open>TARGET_ANDROID\<close> block of \<^verbatim>\<open>LoadDll\<close> (lines 87-125). The result is
  \<open>None\<close> where the block returns false, and otherwise the value of \<^verbatim>\<open>path\<close> that
  reaches \<^verbatim>\<open>dlopen\<close>; with it the calls made. \<^verbatim>\<open>path.compare(0, n, s) != 0\<close>
  holds when the first \<open>n\<close> characters of \<open>path\<close> (all of it, when it is shorter)
  are not \<open>s\<close>.
\<close>

definition stage :: "sys \<Rightarrow> string \<Rightarrow> string option \<times> call list" where
  "stage sys path =
     (if TARGET_ANDROID sys then
        (if FileExists sys path then
           (let xbmcaltbinaddons = TranslateSpecialProtocol sys ''special://xbmcaltbinaddons/''
            in if take (length xbmcaltbinaddons) path \<noteq> xbmcaltbinaddons then
                 (let dstfile = xbmcaltbinaddons @ GetFileName sys path
                  in if doCopy sys path dstfile then
                       (if \<not> CopyFile sys path dstfile then
                          (None,
                           [Log ADDON_LOG_DEBUG fmt_caching [path, dstfile],
                            Copy path dstfile,
                            Log ADDON_LOG_ERROR fmt_failed_to_cache [path, dstfile]])
                        else
                          (Some dstfile,
                           [Log ADDON_LOG_DEBUG fmt_caching [path, dstfile],
                            Copy path dstfile]))
                     else (Some dstfile, []))
               else (Some path, []))
         else (None, []))
      else (Some path, []))"

text \<open>
  \<^verbatim>\<open>bool LoadDll(std::string path)\<close> (lines 85-134): the returned flag, the object
  afterwards and the calls made. \<^verbatim>\<open>m_dll\<close> is assigned whatever \<^verbatim>\<open>dlopen\<close>
  returns, before the test for null.
\<close>

definition LoadDll :: "sys \<Rightarrow> CDllHelper \<Rightarrow> string \<Rightarrow> bool \<times> CDllHelper \<times> call list" where
  "LoadDll sys obj path =
     (case stage sys path of
        (None, calls) \<Rightarrow> (False, obj, calls)
      | (Some path', calls) \<Rightarrow>
          (let obj' = obj\<lparr>m_dll := dlopen sys path'\<rparr>
           in if m_dll obj' = nullptr then
                (False, obj',
                 calls @ [Open path', Log ADDON_LOG_ERROR fmt_unable_to_load [dlerror sys]])
              else (True, obj', calls @ [Open path'])))"

text \<open>
  \<^verbatim>\<open>bool RegisterSymbol(T& functionPtr, const char* strFunctionPtr)\<close> (lines
  141-151): the returned flag, the contents of the slot \<^verbatim>\<open>functionPtr\<close> afterwards
  and the calls made. The argument \<open>functionPtr\<close> is what the slot holds before the
  call. The object is not written.
\<close>

definition RegisterSymbol :: "sys \<Rightarrow> CDllHelper \<Rightarrow> ptr \<Rightarrow> string \<Rightarrow> bool \<times> ptr \<times> call list" where
  "RegisterSymbol sys obj functionPtr strFunctionPtr =
     (let functionPtr' = dlsym sys (m_dll obj) strFunctionPtr
      in if functionPtr' = nullptr then
           (False, functionPtr',
            [Resolve (m_dll obj) strFunctionPtr,
             Log ADDON_LOG_ERROR fmt_unable_to_assign [dlerror sys]])
         else (True, functionPtr', [Resolve (m_dll obj) strFunctionPtr]))"

text \<open>The destructor \<^verbatim>\<open>~CDllHelper()\<close> (lines 74-78): the calls it makes.\<close>

definition CDllHelper_dtor :: "CDllHelper \<Rightarrow> call list" where
  "CDllHelper_dtor obj = (if m_dll obj \<noteq> nullptr then [Close (m_dll obj)] else [])"

subsection \<open>Reading the list of calls\<close>

fun is_Close :: "call \<Rightarrow> bool" where
  "is_Close (Close h) = True"
| "is_Close c = False"

fun is_Open :: "call \<Rightarrow> bool" where
  "is_Open (Open p) = True"
| "is_Open c = False"

text \<open>
  The path \<^verbatim>\<open>LoadDll\<close> hands to \<^verbatim>\<open>dlopen\<close> when it gets that far (lines 91-95 and
  118): the path given, or on Android, for a file outside the special directory,
  the file of that name inside it.
\<close>

definition dll_path :: "sys \<Rightarrow> string \<Rightarrow> string" where
  "dll_path sys path =
     (let xbmcaltbinaddons = TranslateSpecialProtocol sys ''special://xbmcaltbinaddons/''
      in if TARGET_ANDROID sys \<and> take (length xbmcaltbinaddons) path \<noteq> xbmcaltbinaddons
         then xbmcaltbinaddons @ GetFileName sys path
         else path)"

text \<open>
  The same collaborators, with every modification time that \<^verbatim>\<open>StatFile\<close> reports
  replaced: \<open>f p t\<close> is reported for the file \<open>p\<close> in place of \<open>t\<close>.
\<close>

definition with_mod_times :: "(string \<Rightarrow> timespec \<Rightarrow> timespec) \<Rightarrow> sys \<Rightarrow> sys" where
  "with_mod_times f sys =
     sys\<lparr>StatFile := \<lambda>p. map_option (\<lambda>st. st\<lparr>modificationTime := f p (modificationTime st)\<rparr>)
                                    (StatFile sys p)\<rparr>"

subsection \<open>Concrete systems\<close>

text \<open>
  A desktop system with two libraries: \<^verbatim>\<open>/addons/mylib.so\<close>, loaded at address
  4096 and exporting \<^verbatim>\<open>Init\<close> at address 8192, and \<^verbatim>\<open>/addons/other.so\<close>, loaded at
  address 20480. As with glibc, where \<^verbatim>\<open>RTLD_DEFAULT\<close> is the null pointer,
  \<^verbatim>\<open>dlsym\<close> on a null handle searches the symbols of the process itself, which
  has \<^verbatim>\<open>malloc\<close>.
\<close>

definition desktop :: sys where
  "desktop =
     \<lparr>TARGET_ANDROID = False,
      TIME_UTC = 1,
      FileExists = (\<lambda>p. p = ''/addons/mylib.so'' \<or> p = ''/addons/other.so''),
      TranslateSpecialProtocol = (\<lambda>p. p),
      GetFileName = (\<lambda>p. p),
      StatFile = (\<lambda>p. None),
      CopyFile = (\<lambda>src dst. False),
      clock_gettime = (\<lambda>k. Some \<lparr>tv_sec = 5000, tv_nsec = 0\<rparr>),
      dlopen = (\<lambda>p. if p = ''/addons/mylib.so'' then 4096
                     else if p = ''/addons/other.so'' then 20480
                     else nullptr),
      dlsym = (\<lambda>h name. if h = 4096 \<and> name = ''Init'' then 8192
                         else if h = nullptr \<and> name = ''malloc'' then 12288
                         else nullptr),
      dlerror = ''undefined symbol''\<rparr>"

text \<open>
  An Android system: the library \<^verbatim>\<open>/addons/mylib.so\<close> (100 bytes, modified at
  second 1000) has been cached before as \<^verbatim>\<open>/data/alt/mylib.so\<close> (100 bytes,
  modified at second 2000); the clock works and shows second 5000. \<open>copy_ok\<close> says
  whether \<^verbatim>\<open>CopyFile\<close> succeeds.
\<close>

definition android :: "bool \<Rightarrow> sys" where
  "android copy_ok =
     \<lparr>TARGET_ANDROID = True,
      TIME_UTC = 1,
      FileExists = (\<lambda>p. p = ''/addons/mylib.so'' \<or> p = ''/data/alt/mylib.so''),
      TranslateSpecialProtocol = (\<lambda>p. ''/data/alt/''),
      GetFileName = (\<lambda>p. ''mylib.so''),
      StatFile = (\<lambda>p. if p = ''/addons/mylib.so''
                       then Some \<lparr>size_st = 100,
                                  modificationTime = \<lparr>tv_sec = 1000, tv_nsec = 0\<rparr>\<rparr>
                       else if p = ''/data/alt/mylib.so''
                       then Some \<lparr>size_st = 100,
                                  modificationTime = \<lparr>tv_sec = 2000, tv_nsec = 0\<rparr>\<rparr>
                       else None),
      CopyFile = (\<lambda>src dst. copy_ok),
      clock_gettime = (\<lambda>k. Some \<lparr>tv_sec = 5000, tv_nsec = 0\<rparr>),
      dlopen = (\<lambda>p. if p = ''/data/alt/mylib.so'' then 4096 else nullptr),
      dlsym = (\<lambda>h name. if h = 4096 \<and> name = ''Init'' then 8192 else nullptr),
      dlerror = ''cannot open shared object file''\<rparr>"

text \<open>
  The desktop system again, with a loader that, as \<^verbatim>\<open>dlopen\<close> does for a name
  without a slash, looks a bare library name up in its search directories: it opens
  \<^verbatim>\<open>libm.so.6\<close> at address 24576, although the filesystem has no file at the path
  \<^verbatim>\<open>libm.so.6\<close>.
\<close>

definition desktop_searching :: sys where
  "desktop_searching =
     desktop\<lparr>dlopen := \<lambda>p. if p = ''libm.so.6'' then 24576 else dlopen desktop p\<rparr>"

section \<open>Properties\<close>

subsection \<open>Shared facts\<close>

lemma stage_not_android: "\<not> TARGET_ANDROID sys \<Longrightarrow> stage sys path = (Some path, [])"
  by (simp add: stage_def)

lemma stage_no_Close: "filter is_Close (snd (stage sys path)) = []"
  by (simp add: stage_def Let_def)

lemma stage_path: "fst (stage sys path) = Some p \<Longrightarrow> p = dll_path sys path"
  by (auto simp add: stage_def dll_path_def Let_def split: if_splits)

lemma stage_ok:
  assumes "TARGET_ANDROID sys \<Longrightarrow> FileExists sys path"
      and "TARGET_ANDROID sys \<Longrightarrow> dll_path sys path \<noteq> path \<Longrightarrow>
             CopyFile sys path (dll_path sys path)"
  shows "fst (stage sys path) = Some (dll_path sys path)"
proof (cases "TARGET_ANDROID sys")
  case False
  then show ?thesis by (simp add: stage_def dll_path_def)
next
  case android: True
  define x where "x = TranslateSpecialProtocol sys ''special://xbmcaltbinaddons/''"
  show ?thesis
  proof (cases "take (length x) path = x")
    case True
    with android assms(1) show ?thesis
      by (simp add: stage_def dll_path_def x_def)
  next
    case False
    then have "x @ GetFileName sys path \<noteq> path"
      by (metis append_eq_conv_conj)
    with android False have "dll_path sys path = x @ GetFileName sys path"
      and "dll_path sys path \<noteq> path"
      by (simp_all add: dll_path_def x_def)
    with android assms(2) have "CopyFile sys path (x @ GetFileName sys path)"
      by simp
    with android assms(1) False show ?thesis
      by (simp add: stage_def dll_path_def x_def Let_def)
  qed
qed

lemma LoadDll_no_Close: "filter is_Close (snd (snd (LoadDll sys obj path))) = []"
  using stage_no_Close [of sys path]
  by (cases "stage sys path") (auto simp add: LoadDll_def Let_def split: option.splits)

lemma LoadDll_ok:
  "LoadDll sys obj path = (True, obj', calls) \<Longrightarrow>
     m_dll obj' = dlopen sys (dll_path sys path) \<and> m_dll obj' \<noteq> nullptr"
  using stage_path [of sys path]
  by (cases "stage sys path")
     (auto simp add: LoadDll_def Let_def split: option.splits if_splits)

lemma doCopy_iff:
  assumes "0 < TIME_UTC sys"
  shows "doCopy sys path dstfile =
     (case (StatFile sys dstfile, StatFile sys path) of
        (Some dstFileStat, Some srcFileStat) \<Rightarrow>
          \<not> (size_st dstFileStat = size_st srcFileStat \<and>
             clock_gettime sys 0 \<noteq> None \<and> clock_gettime sys 1 = None)
      | _ \<Rightarrow> True)"
  using assms by (auto simp add: doCopy_def timespec_get_def split: option.splits)

lemma doCopy_clock_works:
  "clock_gettime sys 0 \<noteq> None \<Longrightarrow> clock_gettime sys 1 \<noteq> None \<Longrightarrow> doCopy sys path dstfile"
  by (auto simp add: doCopy_def timespec_get_def split: option.splits)

subsection \<open>The staging check\<close>

text \<open>
  C1. The claim: on Android the copy is skipped whenever the destination is present
  with the size of the source and a modification time not earlier than the
  source's. The code does not do so. On the system \<open>android True\<close> the cached file
  has the size of the source (100 bytes) and is newer (second 2000 against 1000),
  and still \<^verbatim>\<open>LoadDll\<close> logs the caching, calls \<^verbatim>\<open>CopyFile\<close> and then opens the
  copy: the two calls of \<^verbatim>\<open>timespec_get\<close> both return \<^verbatim>\<open>TIME_UTC\<close>, and
  \<^verbatim>\<open>TIME_UTC > TIME_UTC\<close> is false.
\<close>

theorem LoadDll_copies_over_fresh_cache:
  "LoadDll (android True) CDllHelper_new ''/addons/mylib.so'' =
     (True, \<lparr>m_dll = 4096\<rparr>,
      [Log ADDON_LOG_DEBUG fmt_caching [''/addons/mylib.so'', ''/data/alt/mylib.so''],
       Copy ''/addons/mylib.so'' ''/data/alt/mylib.so'',
       Open ''/data/alt/mylib.so''])"
  by (simp add: LoadDll_def stage_def doCopy_def timespec_get_def android_def
        CDllHelper_new_def Let_def)

text \<open>
  C9. \<^verbatim>\<open>timespec_get(ts, base)\<close> returns \<^verbatim>\<open>TIME_UTC\<close> when \<^verbatim>\<open>base\<close> is
  \<^verbatim>\<open>TIME_UTC\<close> and the read of the clock succeeds, and 0 otherwise; called with
  \<^verbatim>\<open>TIME_UTC\<close> it leaves the time read from the clock in \<^verbatim>\<open>*ts\<close>; what it returns
  does not depend on what \<^verbatim>\<open>*ts\<close> held. So neither \<^verbatim>\<open>doCopy\<close> nor anything else
  \<^verbatim>\<open>LoadDll\<close> does depends on the modification times of the files: reporting any
  other times for them changes nothing.
\<close>

theorem timespec_get_ignores_its_timespec:
  "fst (timespec_get sys k ts base) =
     (if base = TIME_UTC sys \<and> clock_gettime sys k \<noteq> None then TIME_UTC sys else 0) \<and>
   snd (timespec_get sys k ts (TIME_UTC sys)) =
     (case clock_gettime sys k of Some now \<Rightarrow> now | None \<Rightarrow> ts) \<and>
   fst (timespec_get sys k ts base) = fst (timespec_get sys k ts' base) \<and>
   doCopy (with_mod_times f sys) path dstfile = doCopy sys path dstfile \<and>
   LoadDll (with_mod_times f sys) obj path = LoadDll sys obj path"
proof -
  have ret: "fst (timespec_get s k t b) =
      (if b = TIME_UTC s \<and> clock_gettime s k \<noteq> None then TIME_UTC s else 0)" for s k t b
    by (simp add: timespec_get_def split: option.splits)
  have stored: "snd (timespec_get sys k ts (TIME_UTC sys)) =
      (case clock_gettime sys k of Some now \<Rightarrow> now | None \<Rightarrow> ts)"
    by (simp add: timespec_get_def split: option.splits)
  have copy: "doCopy (with_mod_times f sys) p d = doCopy sys p d" for p d
    by (simp add: doCopy_def ret with_mod_times_def split: option.splits)
  have st: "stage (with_mod_times f sys) path = stage sys path"
    unfolding stage_def copy by (simp add: with_mod_times_def Let_def)
  have dl: "dlopen (with_mod_times f sys) = dlopen sys"
    "dlerror (with_mod_times f sys) = dlerror sys"
    by (simp_all add: with_mod_times_def)
  have "LoadDll (with_mod_times f sys) obj path = LoadDll sys obj path"
    by (simp add: LoadDll_def st dl Let_def split: prod.splits option.splits)
  with stored copy show ?thesis
    by (simp add: ret)
qed

text \<open>
  C7. On Android, when \<^verbatim>\<open>LoadDll\<close> attempts the staging copy and \<^verbatim>\<open>CopyFile\<close>
  fails, \<^verbatim>\<open>LoadDll\<close> returns false with the object as it was and without a call of
  \<^verbatim>\<open>dlopen\<close>; its calls are the debug line announcing the caching, the copy, and
  the error line reporting the failure, each log line with the source and the
  destination.
\<close>

theorem LoadDll_copy_failure:
  assumes "LoadDll sys obj P = (ok, obj', calls)"
      and "Copy src dst \<in> set calls"
      and "\<not> CopyFile sys src dst"
  shows "\<not> ok \<and> obj' = obj \<and> filter is_Open calls = [] \<and>
         calls = [Log ADDON_LOG_DEBUG fmt_caching [src, dst],
                  Copy src dst,
                  Log ADDON_LOG_ERROR fmt_failed_to_cache [src, dst]] \<and>
         TARGET_ANDROID sys \<and> src = P"
  using assms
  by (auto simp add: LoadDll_def stage_def Let_def split: if_splits)

text \<open>The system \<open>android False\<close>, where the copy fails, is such a case.\<close>

theorem LoadDll_copy_failure_witness:
  "LoadDll (android False) CDllHelper_new ''/addons/mylib.so'' =
     (False, CDllHelper_new,
      [Log ADDON_LOG_DEBUG fmt_caching [''/addons/mylib.so'', ''/data/alt/mylib.so''],
       Copy ''/addons/mylib.so'' ''/data/alt/mylib.so'',
       Log ADDON_LOG_ERROR fmt_failed_to_cache [''/addons/mylib.so'', ''/data/alt/mylib.so'']]) \<and>
   \<not> CopyFile (android False) ''/addons/mylib.so'' ''/data/alt/mylib.so'' \<and>
   filter is_Open (snd (snd (LoadDll (android False) CDllHelper_new ''/addons/mylib.so''))) = []"
proof -
  let ?calls = "[Log ADDON_LOG_DEBUG fmt_caching [''/addons/mylib.so'', ''/data/alt/mylib.so''],
       Copy ''/addons/mylib.so'' ''/data/alt/mylib.so'',
       Log ADDON_LOG_ERROR fmt_failed_to_cache [''/addons/mylib.so'', ''/data/alt/mylib.so'']]"
  have run: "LoadDll (android False) CDllHelper_new ''/addons/mylib.so'' =
      (False, CDllHelper_new, ?calls)"
    by (simp add: LoadDll_def stage_def doCopy_def timespec_get_def android_def Let_def)
  have tried: "Copy ''/addons/mylib.so'' ''/data/alt/mylib.so'' \<in> set ?calls"
    by simp
  have failed: "\<not> CopyFile (android False) ''/addons/mylib.so'' ''/data/alt/mylib.so''"
    by (simp add: android_def)
  from LoadDll_copy_failure [OF run tried failed] run failed show ?thesis
    by simp
qed

subsection \<open>Binding symbols\<close>

text \<open>
  C2, as claimed: \<^verbatim>\<open>RegisterSymbol\<close> on an object that was never loaded fails for
  every name. The code has no test of \<^verbatim>\<open>m_dll\<close>: it passes the null handle to
  \<^verbatim>\<open>dlsym\<close> and goes by the answer. On the system \<open>desktop\<close>, whose \<^verbatim>\<open>dlsym\<close>
  takes a null handle for the default search order, binding \<^verbatim>\<open>malloc\<close> on a fresh
  object succeeds.
\<close>

theorem RegisterSymbol_null_handle_can_succeed:
  "m_dll CDllHelper_new = nullptr \<and>
   fst (RegisterSymbol desktop CDllHelper_new nullptr ''malloc'')"
  by (simp add: RegisterSymbol_def desktop_def CDllHelper_new_def)

text \<open>
  C2, amended: on an object whose handle is null, \<^verbatim>\<open>RegisterSymbol\<close> passes the null
  handle to \<^verbatim>\<open>dlsym\<close> as it is and fails exactly when \<^verbatim>\<open>dlsym\<close> returns null for
  it; it then leaves the slot null and logs the loader's error.
\<close>

theorem RegisterSymbol_null_handle:
  assumes "m_dll obj = nullptr"
  shows "fst (RegisterSymbol sys obj slot name) = (dlsym sys nullptr name \<noteq> nullptr) \<and>
         hd (snd (snd (RegisterSymbol sys obj slot name))) = Resolve nullptr name \<and>
         (dlsym sys nullptr name = nullptr \<longrightarrow>
            RegisterSymbol sys obj slot name =
              (False, nullptr,
               [Resolve nullptr name,
                Log ADDON_LOG_ERROR fmt_unable_to_assign [dlerror sys]]))"
  using assms by (simp add: RegisterSymbol_def Let_def)

text \<open>On \<open>desktop\<close> the name \<^verbatim>\<open>Init\<close> is not found through the null handle.\<close>

theorem RegisterSymbol_null_handle_witness:
  "m_dll CDllHelper_new = nullptr \<and> dlsym desktop nullptr ''Init'' = nullptr \<and>
   \<not> fst (RegisterSymbol desktop CDllHelper_new 77 ''Init'') \<and>
   RegisterSymbol desktop CDllHelper_new 77 ''Init'' =
     (False, nullptr,
      [Resolve nullptr ''Init'',
       Log ADDON_LOG_ERROR fmt_unable_to_assign [''undefined symbol'']])"
proof -
  have null: "m_dll CDllHelper_new = nullptr"
    by (simp add: CDllHelper_new_def)
  have absent: "dlsym desktop nullptr ''Init'' = nullptr"
    by (simp add: desktop_def)
  have "dlerror desktop = ''undefined symbol''"
    by (simp add: desktop_def)
  with null absent
    RegisterSymbol_null_handle [OF null, where sys = desktop and slot = 77 and name = "''Init''"]
  show ?thesis
    by simp
qed

text \<open>
  C3, as claimed: a failing \<^verbatim>\<open>RegisterSymbol\<close> leaves the slot as it was. The code
  assigns the slot before it tests the result: on \<open>desktop\<close>, with the library loaded
  at 4096 and the slot holding 8192, binding the missing \<^verbatim>\<open>NoSuchFn\<close> fails and the
  slot no longer holds 8192.
\<close>

theorem RegisterSymbol_failure_overwrites_slot:
  "\<not> fst (RegisterSymbol desktop \<lparr>m_dll = 4096\<rparr> 8192 ''NoSuchFn'') \<and>
   fst (snd (RegisterSymbol desktop \<lparr>m_dll = 4096\<rparr> 8192 ''NoSuchFn'')) \<noteq> 8192"
  by (simp add: RegisterSymbol_def desktop_def)

text \<open>
  C3, amended: every call of \<^verbatim>\<open>RegisterSymbol\<close> assigns what \<^verbatim>\<open>dlsym\<close> returned to
  the slot; the call succeeds exactly when the slot is then not null, so after a
  failing call the slot is null whatever it held before.
\<close>

theorem RegisterSymbol_always_assigns:
  "fst (snd (RegisterSymbol sys obj slot name)) = dlsym sys (m_dll obj) name \<and>
   fst (RegisterSymbol sys obj slot name) =
     (fst (snd (RegisterSymbol sys obj slot name)) \<noteq> nullptr) \<and>
   (\<not> fst (RegisterSymbol sys obj slot name) \<longrightarrow>
      fst (snd (RegisterSymbol sys obj slot name)) = nullptr)"
  by (simp add: RegisterSymbol_def Let_def)

text \<open>The failing call above leaves the slot null.\<close>

theorem RegisterSymbol_always_assigns_witness:
  "\<not> fst (RegisterSymbol desktop \<lparr>m_dll = 4096\<rparr> 8192 ''NoSuchFn'') \<and>
   fst (snd (RegisterSymbol desktop \<lparr>m_dll = 4096\<rparr> 8192 ''NoSuchFn'')) = nullptr"
proof -
  have fails: "\<not> fst (RegisterSymbol desktop \<lparr>m_dll = 4096\<rparr> 8192 ''NoSuchFn'')"
    by (simp add: RegisterSymbol_def desktop_def)
  with RegisterSymbol_always_assigns
         [where sys = desktop and obj = "\<lparr>m_dll = 4096\<rparr>" and slot = 8192
            and name = "''NoSuchFn''"]
  show ?thesis
    by blast
qed

text \<open>
  C8. Calling \<^verbatim>\<open>RegisterSymbol\<close> again for the same name on the same loaded library,
  with the slot as the first call left it, gives the same flag, the same slot and
  the same calls. Each call resolves the name against the handle (its first call is
  \<^verbatim>\<open>dlsym\<close> on \<^verbatim>\<open>m_dll\<close>), assigns the address found to the slot and succeeds
  exactly when that address is not null.
\<close>

theorem RegisterSymbol_idempotent:
  "RegisterSymbol sys obj (fst (snd (RegisterSymbol sys obj slot name))) name =
     RegisterSymbol sys obj slot name \<and>
   fst (snd (RegisterSymbol sys obj slot name)) = dlsym sys (m_dll obj) name \<and>
   fst (RegisterSymbol sys obj slot name) = (dlsym sys (m_dll obj) name \<noteq> nullptr) \<and>
   hd (snd (snd (RegisterSymbol sys obj slot name))) = Resolve (m_dll obj) name"
  by (simp add: RegisterSymbol_def Let_def)

subsection \<open>Loading\<close>

text \<open>
  C4. Let \<open>P\<close> be a valid library path: where the platform stages the library, the
  file exists and the copy into the special directory succeeds, and \<^verbatim>\<open>dlopen\<close>
  opens the path it is given. Let \<open>name\<close> be exported by that library: \<^verbatim>\<open>dlsym\<close>
  finds it on the handle. Then \<^verbatim>\<open>LoadDll(P)\<close> returns true and keeps the handle, and
  \<^verbatim>\<open>RegisterSymbol\<close> after it returns true and leaves in the slot the address, not
  null, that \<^verbatim>\<open>dlsym\<close> reports for the name on that handle.
\<close>

theorem LoadDll_then_RegisterSymbol:
  assumes "TARGET_ANDROID sys \<Longrightarrow> FileExists sys P"
      and "TARGET_ANDROID sys \<Longrightarrow> dll_path sys P \<noteq> P \<Longrightarrow> CopyFile sys P (dll_path sys P)"
      and "dlopen sys (dll_path sys P) \<noteq> nullptr"
      and "dlsym sys' (dlopen sys (dll_path sys P)) name \<noteq> nullptr"
  shows "case LoadDll sys obj P of
           (loaded, obj', calls) \<Rightarrow>
             loaded \<and> m_dll obj' = dlopen sys (dll_path sys P) \<and>
             (case RegisterSymbol sys' obj' slot name of
                (bound, slot', calls') \<Rightarrow>
                  bound \<and> slot' \<noteq> nullptr \<and> slot' = dlsym sys' (m_dll obj') name)"
proof -
  from stage_ok [of sys P] assms(1,2)
  have "fst (stage sys P) = Some (dll_path sys P)" by blast
  then obtain calls where "stage sys P = (Some (dll_path sys P), calls)"
    by (cases "stage sys P") simp
  with assms(3,4) show ?thesis
    by (simp add: LoadDll_def RegisterSymbol_def Let_def)
qed

text \<open>On Android, with the copy succeeding: the library at 4096, \<^verbatim>\<open>Init\<close> at 8192.\<close>

theorem LoadDll_then_RegisterSymbol_witness:
  "TARGET_ANDROID (android True) \<and>
   FileExists (android True) ''/addons/mylib.so'' \<and>
   dll_path (android True) ''/addons/mylib.so'' = ''/data/alt/mylib.so'' \<and>
   CopyFile (android True) ''/addons/mylib.so'' ''/data/alt/mylib.so'' \<and>
   dlopen (android True) ''/data/alt/mylib.so'' = 4096 \<and>
   dlsym (android True) 4096 ''Init'' = 8192 \<and>
   (case LoadDll (android True) CDllHelper_new ''/addons/mylib.so'' of
      (loaded, obj', calls) \<Rightarrow>
        loaded \<and> m_dll obj' = 4096 \<and>
        (case RegisterSymbol (android True) obj' nullptr ''Init'' of
           (bound, slot', calls') \<Rightarrow> bound \<and> slot' = 8192))"
proof -
  let ?sys = "android True"
  let ?P = "''/addons/mylib.so''"
  have an: "TARGET_ANDROID ?sys" by (simp add: android_def)
  have path: "dll_path ?sys ?P = ''/data/alt/mylib.so''"
    by (simp add: dll_path_def android_def)
  have ex: "FileExists ?sys ?P" by (simp add: android_def)
  have cp: "CopyFile ?sys ?P (dll_path ?sys ?P)" by (simp add: android_def)
  have op: "dlopen ?sys ''/data/alt/mylib.so'' = 4096" by (simp add: android_def)
  have sy: "dlsym ?sys 4096 ''Init'' = 8192" by (simp add: android_def)
  have op': "dlopen ?sys (dll_path ?sys ?P) \<noteq> nullptr" using op path by simp
  have sy': "dlsym ?sys (dlopen ?sys (dll_path ?sys ?P)) ''Init'' \<noteq> nullptr"
    using op path sy by simp
  from LoadDll_then_RegisterSymbol
         [where sys = ?sys and P = ?P and sys' = ?sys and name = "''Init''"
            and obj = CDllHelper_new and slot = nullptr, OF ex cp op' sy']
  show ?thesis using an path ex cp op sy
    by (auto simp add: split_def)
qed

text \<open>
  C5, as claimed: \<^verbatim>\<open>LoadDll\<close> of a path that does not exist fails and keeps no
  handle. Outside Android the code makes no test for the file: it hands the path to
  \<^verbatim>\<open>dlopen\<close> and goes by the answer. On \<open>desktop_searching\<close> the filesystem has no
  \<^verbatim>\<open>libm.so.6\<close>, and \<^verbatim>\<open>LoadDll\<close> of it on a new object returns true and keeps the
  handle 24576.
\<close>

theorem LoadDll_opens_absent_path:
  "\<not> FileExists desktop_searching ''libm.so.6'' \<and>
   m_dll CDllHelper_new = nullptr \<and>
   LoadDll desktop_searching CDllHelper_new ''libm.so.6'' =
     (True, \<lparr>m_dll = 24576\<rparr>, [Open ''libm.so.6''])"
  by (simp add: LoadDll_def stage_def desktop_searching_def desktop_def CDllHelper_new_def
        Let_def)

text \<open>
  C5, amended. On Android, \<^verbatim>\<open>LoadDll\<close> of a path that the filesystem does not find
  returns false at once: the object is as it was and nothing is called, \<^verbatim>\<open>dlopen\<close>
  included. On every platform a \<^verbatim>\<open>LoadDll\<close> that returns false on an object whose
  handle is null leaves the handle null. Outside Android \<^verbatim>\<open>LoadDll\<close> does not ask
  whether the file exists: it returns true exactly when \<^verbatim>\<open>dlopen\<close> returns a handle
  for the path, and keeps what \<^verbatim>\<open>dlopen\<close> returned.
\<close>

theorem LoadDll_absent_path:
  assumes "m_dll obj = nullptr"
  shows "(TARGET_ANDROID sys \<and> \<not> FileExists sys P \<longrightarrow>
            LoadDll sys obj P = (False, obj, [])) \<and>
         (\<not> fst (LoadDll sys obj P) \<longrightarrow>
            m_dll (fst (snd (LoadDll sys obj P))) = nullptr) \<and>
         (\<not> TARGET_ANDROID sys \<longrightarrow>
            fst (LoadDll sys obj P) = (dlopen sys P \<noteq> nullptr) \<and>
            m_dll (fst (snd (LoadDll sys obj P))) = dlopen sys P)"
proof (intro conjI impI)
  assume "TARGET_ANDROID sys \<and> \<not> FileExists sys P"
  then show "LoadDll sys obj P = (False, obj, [])"
    by (simp add: LoadDll_def stage_def)
next
  assume failed: "\<not> fst (LoadDll sys obj P)"
  obtain staged calls where st: "stage sys P = (staged, calls)"
    by (cases "stage sys P")
  show "m_dll (fst (snd (LoadDll sys obj P))) = nullptr"
  proof (cases staged)
    case None
    with st assms show ?thesis
      by (simp add: LoadDll_def)
  next
    case (Some path')
    with st failed show ?thesis
      by (simp add: LoadDll_def Let_def split: if_splits)
  qed
next
  assume "\<not> TARGET_ANDROID sys"
  then have st: "stage sys P = (Some P, [])"
    by (rule stage_not_android)
  show "fst (LoadDll sys obj P) = (dlopen sys P \<noteq> nullptr)"
    by (simp add: LoadDll_def st Let_def)
  show "m_dll (fst (snd (LoadDll sys obj P))) = dlopen sys P"
    by (simp add: LoadDll_def st Let_def)
qed

text \<open>
  Neither \<open>android True\<close> nor \<open>desktop\<close> has a \<^verbatim>\<open>/no/such.so\<close>: the first does not
  find the file, the loader of the second cannot open it.
\<close>

theorem LoadDll_absent_path_witness:
  "m_dll CDllHelper_new = nullptr \<and>
   TARGET_ANDROID (android True) \<and> \<not> FileExists (android True) ''/no/such.so'' \<and>
   LoadDll (android True) CDllHelper_new ''/no/such.so'' = (False, CDllHelper_new, []) \<and>
   m_dll (fst (snd (LoadDll (android True) CDllHelper_new ''/no/such.so''))) = nullptr \<and>
   \<not> TARGET_ANDROID desktop \<and> dlopen desktop ''/no/such.so'' = nullptr \<and>
   \<not> fst (LoadDll desktop CDllHelper_new ''/no/such.so'') \<and>
   m_dll (fst (snd (LoadDll desktop CDllHelper_new ''/no/such.so''))) = nullptr"
proof -
  have new: "m_dll CDllHelper_new = nullptr"
    by (simp add: CDllHelper_new_def)
  have an: "TARGET_ANDROID (android True) \<and> \<not> FileExists (android True) ''/no/such.so''"
    by (simp add: android_def)
  have de: "\<not> TARGET_ANDROID desktop" and cannot: "dlopen desktop ''/no/such.so'' = nullptr"
    by (simp_all add: desktop_def)
  note on_android =
    LoadDll_absent_path [OF new, where sys = "android True" and P = "''/no/such.so''"]
  note on_desktop =
    LoadDll_absent_path [OF new, where sys = desktop and P = "''/no/such.so''"]
  from on_android an
  have a1: "LoadDll (android True) CDllHelper_new ''/no/such.so'' = (False, CDllHelper_new, [])"
    by blast
  then have "\<not> fst (LoadDll (android True) CDllHelper_new ''/no/such.so'')"
    by simp
  with on_android
  have a2: "m_dll (fst (snd (LoadDll (android True) CDllHelper_new ''/no/such.so''))) = nullptr"
    by blast
  from on_desktop de cannot
  have d1: "\<not> fst (LoadDll desktop CDllHelper_new ''/no/such.so'')"
    by simp
  with on_desktop
  have d2: "m_dll (fst (snd (LoadDll desktop CDllHelper_new ''/no/such.so''))) = nullptr"
    by blast
  from new an a1 a2 de cannot d1 d2 show ?thesis
    by blast
qed

subsection \<open>The life of the handle\<close>

text \<open>
  C6. The destructor of an object whose handle is not null makes exactly one call of
  \<^verbatim>\<open>dlclose\<close>, on that handle; the destructor of an object whose handle is null, as
  that of a new object, makes none.
\<close>

theorem dtor_closes_once:
  "filter is_Close (CDllHelper_dtor obj) =
     (if m_dll obj = nullptr then [] else [Close (m_dll obj)]) \<and>
   CDllHelper_dtor CDllHelper_new = []"
  by (simp add: CDllHelper_dtor_def CDllHelper_new_def)

text \<open>
  C10. \<^verbatim>\<open>LoadDll\<close> never calls \<^verbatim>\<open>dlclose\<close>. When a successful \<^verbatim>\<open>LoadDll\<close> is
  followed by another on the same object, the object holds the second handle, and
  in the whole life of the object, destructor included, the only call of
  \<^verbatim>\<open>dlclose\<close> is the one on the second handle: the first handle, when it is another
  one, is never closed.
\<close>

theorem LoadDll_never_closes:
  "filter is_Close (snd (snd (LoadDll sys obj P))) = [] \<and>
   (LoadDll sys1 obj P1 = (True, obj1, calls1) \<longrightarrow>
    LoadDll sys2 obj1 P2 = (True, obj2, calls2) \<longrightarrow>
      m_dll obj1 = dlopen sys1 (dll_path sys1 P1) \<and> m_dll obj1 \<noteq> nullptr \<and>
      m_dll obj2 = dlopen sys2 (dll_path sys2 P2) \<and>
      filter is_Close (calls1 @ calls2 @ CDllHelper_dtor obj2) = [Close (m_dll obj2)] \<and>
      (m_dll obj1 \<noteq> m_dll obj2 \<longrightarrow>
         Close (m_dll obj1) \<notin> set (calls1 @ calls2 @ CDllHelper_dtor obj2)))"
proof -
  have never: "filter is_Close (snd (snd (LoadDll sys obj P))) = []"
    by (rule LoadDll_no_Close)
  have twice:
    "m_dll obj1 = dlopen sys1 (dll_path sys1 P1) \<and> m_dll obj1 \<noteq> nullptr \<and>
     m_dll obj2 = dlopen sys2 (dll_path sys2 P2) \<and>
     filter is_Close (calls1 @ calls2 @ CDllHelper_dtor obj2) = [Close (m_dll obj2)] \<and>
     (m_dll obj1 \<noteq> m_dll obj2 \<longrightarrow>
        Close (m_dll obj1) \<notin> set (calls1 @ calls2 @ CDllHelper_dtor obj2))"
    if l1: "LoadDll sys1 obj P1 = (True, obj1, calls1)"
      and l2: "LoadDll sys2 obj1 P2 = (True, obj2, calls2)"
  proof -
    from LoadDll_ok [OF l1]
    have h1: "m_dll obj1 = dlopen sys1 (dll_path sys1 P1)" "m_dll obj1 \<noteq> nullptr"
      by simp_all
    from LoadDll_ok [OF l2]
    have h2: "m_dll obj2 = dlopen sys2 (dll_path sys2 P2)" "m_dll obj2 \<noteq> nullptr"
      by simp_all
    from LoadDll_no_Close [of sys1 obj P1] l1 have c1: "filter is_Close calls1 = []"
      by simp
    from LoadDll_no_Close [of sys2 obj1 P2] l2 have c2: "filter is_Close calls2 = []"
      by simp
    from c1 c2 h2(2)
    have closes:
      "filter is_Close (calls1 @ calls2 @ CDllHelper_dtor obj2) = [Close (m_dll obj2)]"
      by (simp add: CDllHelper_dtor_def)
    have "Close (m_dll obj1) \<notin> set (calls1 @ calls2 @ CDllHelper_dtor obj2)"
      if ne: "m_dll obj1 \<noteq> m_dll obj2"
    proof
      assume "Close (m_dll obj1) \<in> set (calls1 @ calls2 @ CDllHelper_dtor obj2)"
      then have "Close (m_dll obj1)
          \<in> set (filter is_Close (calls1 @ calls2 @ CDllHelper_dtor obj2))"
        by simp
      with closes ne show False
        by simp
    qed
    with h1 h2(1) closes show ?thesis
      by blast
  qed
  from never twice show ?thesis
    by blast
qed

text \<open>On \<open>desktop\<close>, loading one library and then the other leaves 4096 open.\<close>

theorem LoadDll_never_closes_witness:
  "LoadDll desktop CDllHelper_new ''/addons/mylib.so'' =
     (True, \<lparr>m_dll = 4096\<rparr>, [Open ''/addons/mylib.so'']) \<and>
   LoadDll desktop \<lparr>m_dll = 4096\<rparr> ''/addons/other.so'' =
     (True, \<lparr>m_dll = 20480\<rparr>, [Open ''/addons/other.so'']) \<and>
   filter is_Close ([Open ''/addons/mylib.so''] @ [Open ''/addons/other.so''] @
                    CDllHelper_dtor \<lparr>m_dll = 20480\<rparr>) = [Close 20480] \<and>
   Close 4096 \<notin> set ([Open ''/addons/mylib.so''] @ [Open ''/addons/other.so''] @
                    CDllHelper_dtor \<lparr>m_dll = 20480\<rparr>)"
proof -
  have l1: "LoadDll desktop CDllHelper_new ''/addons/mylib.so'' =
      (True, \<lparr>m_dll = 4096\<rparr>, [Open ''/addons/mylib.so''])"
    by (simp add: LoadDll_def stage_def desktop_def CDllHelper_new_def Let_def)
  have l2: "LoadDll desktop \<lparr>m_dll = 4096\<rparr> ''/addons/other.so'' =
      (True, \<lparr>m_dll = 20480\<rparr>, [Open ''/addons/other.so''])"
    by (simp add: LoadDll_def stage_def desktop_def Let_def)
  from LoadDll_never_closes
         [where ?sys1.0 = desktop and obj = CDllHelper_new and ?P1.0 = "''/addons/mylib.so''"
            and ?obj1.0 = "\<lparr>m_dll = 4096\<rparr>" and ?calls1.0 = "[Open ''/addons/mylib.so'']"
            and ?sys2.0 = desktop and ?P2.0 = "''/addons/other.so''"
            and ?obj2.0 = "\<lparr>m_dll = 20480\<rparr>" and ?calls2.0 = "[Open ''/addons/other.so'']"]
       l1 l2
  show ?thesis
    by simp
qed

end
